theory Spec2Isabelle
  imports Main
begin

section \<open>Python values, exceptions and the construction state\<close>

text \<open>
  The builder of \<^verbatim>\<open>Codes/2DCNN/Models/SEDUNet.py\<close> creates layers of the tensor
  engine one after the other. It is modelled at the level the builder itself works at:
  symbolic tensors with their static shapes, the layers that produced them, and the
  sequence of graph nodes created so far. The numeric fields of a configuration are
  natural numbers; the flags keep their integer values, since the source compares them
  with \<^verbatim>\<open>== 1\<close> and \<^verbatim>\<open>== 0\<close>.
\<close>

datatype error =
    ValueError string
  | ZeroDivisionError
  | IndexError
  | TypeError
  | EngineError

datatype padding = Valid | Same

text \<open>
  The layers the source constructs, with the arguments the source passes. The string
  options are the \<^verbatim>\<open>activation\<close> and \<^verbatim>\<open>name\<close> keywords (\<open>None\<close> when the
  source leaves them out).
\<close>

datatype layer =
    InputLayer "nat list"
  | Conv2D nat "nat \<times> nat" "nat \<times> nat" padding "string option" "string option"
  | Conv2DTranspose nat "nat \<times> nat" "nat \<times> nat" padding
  | BatchNormalization
  | Activation string
  | MaxPooling2D "nat \<times> nat"
  | UpSampling2D "nat \<times> nat"
  | Concatenate int
  | Flatten
  | Dense nat "string option" "string option"
  | Reshape "nat list"
  | GlobalAveragePooling2D
  | Multiply
  | Add
  | ConvLSTM2D nat "nat \<times> nat" padding bool bool string
  | TFOpMultiply

record ktensor =
  kshape :: "nat list"
  klayer :: layer
  knode :: nat

record node =
  node_layer :: layer
  inbound :: "nat list"

type_synonym graph = "node list"

type_synonym 'a build = "graph \<Rightarrow> (error + 'a) \<times> graph"

definition ret :: "'a \<Rightarrow> 'a build" where
  "ret x g = (Inr x, g)"

definition throw :: "error \<Rightarrow> 'a build" where
  "throw e g = (Inl e, g)"

definition bnd :: "'a build \<Rightarrow> ('a \<Rightarrow> 'b build) \<Rightarrow> 'b build" where
  "bnd m f g = (case m g of (Inl e, g') \<Rightarrow> (Inl e, g') | (Inr x, g') \<Rightarrow> f x g')"

section \<open>Shape inference of the tensor engine\<close>

text \<open>
  Shapes are per-sample shapes (the batch axis is left out). A layer call fails in the
  engine when the shapes it is given do not fit; \<open>None\<close> stands for that failure.
\<close>

fun conv_output_length :: "nat \<Rightarrow> nat \<Rightarrow> padding \<Rightarrow> nat \<Rightarrow> nat" where
  "conv_output_length n k Same s = (n + s - 1) div s"
| "conv_output_length n k Valid s = (if n < k then 0 else (n - k + s) div s)"

fun deconv_output_length :: "nat \<Rightarrow> nat \<Rightarrow> padding \<Rightarrow> nat \<Rightarrow> nat" where
  "deconv_output_length n k Same s = n * s"
| "deconv_output_length n k Valid s = n * s + (k - s)"

fun broadcast_rev :: "nat list \<Rightarrow> nat list \<Rightarrow> nat list option" where
  "broadcast_rev [] ys = Some ys"
| "broadcast_rev (x # xs) [] = Some (x # xs)"
| "broadcast_rev (x # xs) (y # ys) =
     (if x = 1 then map_option ((#) y) (broadcast_rev xs ys)
      else if y = 1 \<or> x = y then map_option ((#) x) (broadcast_rev xs ys)
      else None)"

definition broadcast_shape :: "nat list \<Rightarrow> nat list \<Rightarrow> nat list option" where
  "broadcast_shape s1 s2 = map_option rev (broadcast_rev (rev s1) (rev s2))"

fun broadcast_all :: "nat list \<Rightarrow> nat list list \<Rightarrow> nat list option" where
  "broadcast_all s [] = Some s"
| "broadcast_all s (t # ts) =
     (case broadcast_shape s t of None \<Rightarrow> None | Some u \<Rightarrow> broadcast_all u ts)"

definition concat_shape :: "int \<Rightarrow> nat list list \<Rightarrow> nat list option" where
  "concat_shape axis ss =
     (case ss of
        [] \<Rightarrow> None
      | s # rest \<Rightarrow>
          (let r = int (length s);
               k = (if axis < 0 then r + axis else axis - 1)
           in if k < 0 \<or> r \<le> k then None
              else if list_all (\<lambda>t. length t = length s \<and> t[nat k := 0] = s[nat k := 0]) rest
              then Some (s[nat k := sum_list (map (\<lambda>t. t ! nat k) ss)])
              else None))"

fun layer_output_shape :: "layer \<Rightarrow> nat list list \<Rightarrow> nat list option" where
  "layer_output_shape (InputLayer s) ss = (if ss = [] then Some s else None)"
| "layer_output_shape (Conv2D f k st p a nm) ss =
     (case ss of
        [[h, w, c]] \<Rightarrow>
          (let oh = conv_output_length h (fst k) p (fst st);
               ow = conv_output_length w (snd k) p (snd st)
           in if oh = 0 \<or> ow = 0 then None else Some [oh, ow, f])
      | _ \<Rightarrow> None)"
| "layer_output_shape (Conv2DTranspose f k st p) ss =
     (case ss of
        [[h, w, c]] \<Rightarrow>
          Some [deconv_output_length h (fst k) p (fst st),
                deconv_output_length w (snd k) p (snd st), f]
      | _ \<Rightarrow> None)"
| "layer_output_shape BatchNormalization ss = (case ss of [s] \<Rightarrow> Some s | _ \<Rightarrow> None)"
| "layer_output_shape (Activation a) ss = (case ss of [s] \<Rightarrow> Some s | _ \<Rightarrow> None)"
| "layer_output_shape (MaxPooling2D p) ss =
     (case ss of
        [[h, w, c]] \<Rightarrow>
          (if fst p = 0 \<or> snd p = 0 \<or> h < fst p \<or> w < snd p then None
           else Some [(h - fst p) div fst p + 1, (w - snd p) div snd p + 1, c])
      | _ \<Rightarrow> None)"
| "layer_output_shape (UpSampling2D sz) ss =
     (case ss of [[h, w, c]] \<Rightarrow> Some [fst sz * h, snd sz * w, c] | _ \<Rightarrow> None)"
| "layer_output_shape (Concatenate axis) ss = concat_shape axis ss"
| "layer_output_shape Flatten ss = (case ss of [s] \<Rightarrow> Some [prod_list s] | _ \<Rightarrow> None)"
| "layer_output_shape (Dense units a nm) ss =
     (case ss of [s] \<Rightarrow> (if s = [] then None else Some (butlast s @ [units])) | _ \<Rightarrow> None)"
| "layer_output_shape (Reshape target) ss =
     (case ss of
        [s] \<Rightarrow> (if prod_list target = prod_list s then Some target else None)
      | _ \<Rightarrow> None)"
| "layer_output_shape GlobalAveragePooling2D ss =
     (case ss of [[h, w, c]] \<Rightarrow> Some [c] | _ \<Rightarrow> None)"
| "layer_output_shape Multiply ss =
     (case ss of s # t # ts \<Rightarrow> broadcast_all s (t # ts) | _ \<Rightarrow> None)"
| "layer_output_shape Add ss =
     (case ss of s # t # ts \<Rightarrow> broadcast_all s (t # ts) | _ \<Rightarrow> None)"
| "layer_output_shape (ConvLSTM2D f k p return_sequences go_backwards init) ss =
     (case ss of
        [[t, h, w, c]] \<Rightarrow>
          (let oh = conv_output_length h (fst k) p 1;
               ow = conv_output_length w (snd k) p 1
           in if oh = 0 \<or> ow = 0 then None
              else Some (if return_sequences then [t, oh, ow, f] else [oh, ow, f]))
      | _ \<Rightarrow> None)"
| "layer_output_shape TFOpMultiply ss =
     (case ss of [s, t] \<Rightarrow> broadcast_shape s t | _ \<Rightarrow> None)"

text \<open>
  Calling a layer on tensors: the engine infers the output shape, creates one graph
  node and returns the new symbolic tensor, or raises and creates nothing.
\<close>

definition call_layer :: "layer \<Rightarrow> ktensor list \<Rightarrow> ktensor build" where
  "call_layer l xs g =
     (case layer_output_shape l (map kshape xs) of
        None \<Rightarrow> (Inl EngineError, g)
      | Some s \<Rightarrow>
          (Inr \<lparr>kshape = s, klayer = l, knode = length g\<rparr>,
           g @ [\<lparr>node_layer = l, inbound = map knode xs\<rparr>]))"


definition concatenate :: "ktensor list \<Rightarrow> int \<Rightarrow> ktensor build" where
  "concatenate xs axis = call_layer (Concatenate axis) xs"

definition add :: "ktensor list \<Rightarrow> ktensor build" where
  "add xs = call_layer Add xs"

section \<open>The primitive blocks\<close>

definition Conv_Block :: "ktensor \<Rightarrow> nat \<Rightarrow> nat \<Rightarrow> nat \<Rightarrow> ktensor build" where
  "Conv_Block inputs model_width kern multiplier =
     bnd (call_layer (Conv2D (model_width * multiplier) (kern, kern) (1, 1) Same None None)
            [inputs]) (\<lambda>x.
     bnd (call_layer BatchNormalization [x]) (\<lambda>x.
     call_layer (Activation ''relu'') [x]))"


fun Concat_Block :: "ktensor \<Rightarrow> ktensor list \<Rightarrow> ktensor build" where
  "Concat_Block cat [] = ret cat"
| "Concat_Block cat (arg # argv) =
     bnd (concatenate [cat, arg] (- 1)) (\<lambda>cat'. Concat_Block cat' argv)"



fun dense_block :: "ktensor \<Rightarrow> nat \<Rightarrow> nat \<Rightarrow> nat \<Rightarrow> nat \<Rightarrow> ktensor build" where
  "dense_block x num_filters kernel_size multiplier 0 = ret x"
| "dense_block x num_filters kernel_size multiplier (Suc num_layers) =
     bnd (Conv_Block x num_filters kernel_size multiplier) (\<lambda>cb.
     bnd (Conv_Block cb num_filters kernel_size multiplier) (\<lambda>cb.
     bnd (concatenate [x, cb] (- 1)) (\<lambda>x'.
     dense_block x' num_filters kernel_size multiplier num_layers)))"

definition SqueezeExcite :: "ktensor \<Rightarrow> nat \<Rightarrow> ktensor build" where
  "SqueezeExcite x ratio =
     (if kshape x = [] then throw TypeError
      else let nb_chan = last (kshape x) in
        bnd (call_layer GlobalAveragePooling2D [x]) (\<lambda>y.
        (if ratio = 0 then throw ZeroDivisionError
         else
           bnd (call_layer (Dense (nb_chan div ratio) (Some ''relu'') None) [y]) (\<lambda>y.
           bnd (call_layer (Dense nb_chan (Some ''sigmoid'') None) [y]) (\<lambda>y.
           call_layer Multiply [x, y])))))"


section \<open>The builder class\<close>

text \<open>
  The attributes of a \<^verbatim>\<open>SEDUNet\<close> object, as \<^verbatim>\<open>__init__\<close> stores them. The
  attribute \<^verbatim>\<open>length\<close> is called \<open>length'\<close> here.
\<close>

record SEDUNet_self =
  length' :: nat
  width :: nat
  model_depth :: nat
  model_width :: nat
  kernel_size :: nat
  problem_type :: string
  output_nums :: nat
  num_channel :: nat
  D_S :: nat
  A_E :: nat
  A_G :: nat
  LSTM :: nat
  dense_loop :: nat
  se_ratio :: nat
  feature_number :: nat
  is_transconv :: bool


























section \<open>Notions used in the statements\<close>

text \<open>
  A construction step succeeds with a result satisfying \<open>P\<close> when, from every graph, it
  returns such a result and raises nothing.
\<close>

definition succeeds :: "'a build \<Rightarrow> ('a \<Rightarrow> bool) \<Rightarrow> bool" where
  "succeeds m P = (\<forall>g. \<exists>x g'. m g = (Inr x, g') \<and> P x)"

definition channels :: "ktensor \<Rightarrow> nat" where
  "channels t = last (kshape t)"












text \<open>A graph that holds one input layer of the given shape, and the tensor it produced.\<close>

definition input_graph :: "nat list \<Rightarrow> graph" where
  "input_graph s = [\<lparr>node_layer = InputLayer s, inbound = []\<rparr>]"

definition input_tensor :: "nat list \<Rightarrow> ktensor" where
  "input_tensor s = \<lparr>kshape = s, klayer = InputLayer s, knode = 0\<rparr>"

text \<open>A construction step raises none of the \<^verbatim>\<open>ValueError\<close>s of the source.\<close>

definition no_value_error :: "'a build \<Rightarrow> bool" where
  "no_value_error m = (\<forall>g s. fst (m g) \<noteq> Inl (ValueError s))"

section \<open>Sequencing of construction steps\<close>

lemma bnd_ret: "bnd (ret x) f = f x"
  by (rule ext) (simp add: bnd_def ret_def)

lemma bnd_throw: "bnd (throw e) f = throw e"
  by (rule ext) (simp add: bnd_def throw_def)

lemma bnd_ret_right: "bnd m ret = m"
  by (rule ext) (simp add: bnd_def ret_def split: prod.splits sum.splits)

lemma bnd_assoc: "bnd (bnd m f) h = bnd m (\<lambda>x. bnd (f x) h)"
  by (rule ext) (simp add: bnd_def split: prod.splits sum.splits)

lemma bnd_Inr: "m g = (Inr x, g') \<Longrightarrow> bnd m f g = f x g'"
  by (simp add: bnd_def)

lemma bnd_Inl: "m g = (Inl e, g') \<Longrightarrow> bnd m f g = (Inl e, g')"
  by (simp add: bnd_def)

lemma bndE:
  assumes "bnd m f g = (Inr y, g'')"
  obtains x g' where "m g = (Inr x, g')" and "f x g' = (Inr y, g'')"
  using assms by (auto simp: bnd_def split: prod.splits sum.splits)

section \<open>The concatenation block\<close>

lemma foldl_bnd:
  "foldl (\<lambda>m a. bnd m (\<lambda>cat. k cat a)) (bnd m f) argv =
     bnd m (\<lambda>x. foldl (\<lambda>m a. bnd m (\<lambda>cat. k cat a)) (f x) argv)"
  by (induction argv arbitrary: m f) (simp_all add: bnd_assoc)

text \<open>
  C10. Called with no further argument, \<^verbatim>\<open>Concat_Block\<close> returns its first argument
  as it is: it raises nothing and creates no graph node. In general it is the left fold
  of the pairwise concatenation along the last (channel) axis over its arguments, in
  the order given.
\<close>

theorem Concat_Block_left_fold:
  "Concat_Block t [] g = (Inr t, g) \<and>
   Concat_Block t argv =
     foldl (\<lambda>m arg. bnd m (\<lambda>cat. concatenate [cat, arg] (- 1))) (ret t) argv"
proof
  show "Concat_Block t [] g = (Inr t, g)" by (simp add: ret_def)
next
  show "Concat_Block t argv =
     foldl (\<lambda>m arg. bnd m (\<lambda>cat. concatenate [cat, arg] (- 1))) (ret t) argv"
  proof (induction argv arbitrary: t)
    case Nil
    show ?case by simp
  next
    case (Cons a argv)
    have "foldl (\<lambda>m arg. bnd m (\<lambda>cat. concatenate [cat, arg] (- 1))) (ret t) (a # argv) =
          foldl (\<lambda>m arg. bnd m (\<lambda>cat. concatenate [cat, arg] (- 1)))
            (bnd (concatenate [t, a] (- 1)) ret) argv"
      by (simp add: bnd_ret bnd_ret_right)
    then show ?case
      using Cons.IH by (simp add: foldl_bnd)
  qed
qed

section \<open>Success of the primitive blocks\<close>

lemma succeedsI: "(\<And>g. \<exists>x g'. m g = (Inr x, g') \<and> P x) \<Longrightarrow> succeeds m P"
  by (simp add: succeeds_def)

lemma succeedsD: "succeeds m P \<Longrightarrow> \<exists>x g'. m g = (Inr x, g') \<and> P x"
  by (simp add: succeeds_def)

lemma succeeds_ret: "P x \<Longrightarrow> succeeds (ret x) P"
  by (simp add: succeeds_def ret_def)

lemma succeeds_bnd:
  assumes "succeeds m P" and "\<And>x. P x \<Longrightarrow> succeeds (f x) Q"
  shows "succeeds (bnd m f) Q"
proof (rule succeedsI)
  fix g
  from succeedsD[OF assms(1), of g] obtain x g' where m: "m g = (Inr x, g')" and px: "P x"
    by blast
  from succeedsD[OF assms(2)[OF px], of g'] obtain y g'' where "f x g' = (Inr y, g'')" and "Q y"
    by blast
  with m show "\<exists>y g''. bnd m f g = (Inr y, g'') \<and> Q y"
    by (simp add: bnd_Inr)
qed

lemma succeeds_weaken: "succeeds m P \<Longrightarrow> (\<And>x. P x \<Longrightarrow> Q x) \<Longrightarrow> succeeds m Q"
  by (auto simp: succeeds_def) blast

lemma succeeds_call_layer:
  "layer_output_shape l (map kshape xs) = Some s \<Longrightarrow>
   succeeds (call_layer l xs) (\<lambda>y. kshape y = s \<and> klayer y = l)"
  by (simp add: succeeds_def call_layer_def)



lemma broadcast_shape_gate: "broadcast_shape [h, w, c] [c] = Some [h, w, c]"
  by (simp add: broadcast_shape_def)


lemma concat_shape_rank3:
  "concat_shape (- 1) [[h, w, c], [h, w, c']] = Some [h, w, c + c']"
  by (simp add: concat_shape_def)


lemma Conv_Block_succeeds:
  assumes "kshape x = [h, w, c]" "0 < h" "0 < w"
  shows "succeeds (Conv_Block x mw k m) (\<lambda>y. kshape y = [h, w, mw * m])"
  unfolding Conv_Block_def
  apply (rule succeeds_bnd[OF succeeds_call_layer])
   apply (simp add: assms)
  using assms apply simp
  apply (rule succeeds_bnd[OF succeeds_call_layer])
   apply simp
  apply (rule succeeds_weaken[OF succeeds_call_layer])
   apply simp
  apply simp
  done




lemma concatenate_succeeds:
  assumes "kshape x = [h, w, c]" "kshape y = [h, w, c']"
  shows "succeeds (concatenate [x, y] (- 1)) (\<lambda>z. kshape z = [h, w, c + c'])"
  unfolding concatenate_def
  apply (rule succeeds_weaken[OF succeeds_call_layer])
   apply (simp add: assms concat_shape_rank3)
  apply simp
  done

lemma dense_block_succeeds:
  assumes "0 < h" "0 < w"
  shows "kshape x = [h, w, c] \<Longrightarrow>
    succeeds (dense_block x nf k m n) (\<lambda>y. kshape y = [h, w, c + n * (nf * m)])"
proof (induction n arbitrary: x c)
  case 0
  then show ?case by (simp add: succeeds_ret)
next
  case (Suc n)
  show ?case
    apply (simp only: dense_block.simps)
    apply (rule succeeds_bnd[OF Conv_Block_succeeds[OF Suc.prems assms]])
    apply (rule succeeds_bnd[OF Conv_Block_succeeds[OF _ assms]])
     apply assumption
    apply (rule succeeds_bnd[OF concatenate_succeeds[OF Suc.prems]])
     apply assumption
    apply (rule succeeds_weaken[OF Suc.IH])
     apply assumption
    apply (simp add: algebra_simps)
    done
qed




section \<open>Keys of the skip dictionary\<close>





section \<open>Halving and doubling\<close>






section \<open>The encoder\<close>








section \<open>The decoder\<close>













section \<open>The dense block\<close>

text \<open>
  C3, as stated: after \<open>n\<close> repeats the dense block has \<open>C + n * 2 * width * multiplier\<close>
  channels. This fails: one repeat on 3 channels with width 2 and multiplier 1 gives 5
  channels, not 7. Each iteration concatenates the output of the second convolution
  block only, which has \<open>width * multiplier\<close> channels.
\<close>

theorem dense_block_channels_counterexample:
  "map_sum id channels
     (fst (dense_block (input_tensor [4, 4, 3]) 2 3 1 1 (input_graph [4, 4, 3]))) = Inr 5
   \<and> (5 :: nat) \<noteq> 3 + 1 * 2 * 2 * 1"
  by code_simp

text \<open>
  C3, amended: on an input of shape \<open>(h, w, C)\<close> with positive \<open>h\<close> and \<open>w\<close>, the dense
  block with \<open>n\<close> repeats succeeds and yields a tensor of the same spatial dimensions
  with \<open>C + n * width * multiplier\<close> channels.
\<close>

theorem dense_block_channels:
  assumes "kshape x = [h, w, c]" "0 < h" "0 < w"
  shows "\<exists>y g'. dense_block x nf ks mult n g = (Inr y, g')
           \<and> kshape y = [h, w, c + n * (nf * mult)]
           \<and> channels y = c + n * (nf * mult)"
proof -
  from succeedsD[OF dense_block_succeeds[OF assms(2,3,1)], of nf ks mult n g]
  obtain y g' where "dense_block x nf ks mult n g = (Inr y, g')"
    and "kshape y = [h, w, c + n * (nf * mult)]" by blast
  then show ?thesis by (auto simp: channels_def)
qed

theorem dense_block_channels_witness:
  "kshape (input_tensor [4, 4, 3]) = [4, 4, 3] \<and> (0 :: nat) < 4
   \<and> (\<exists>y g'. dense_block (input_tensor [4, 4, 3]) 2 3 1 2 (input_graph [4, 4, 3]) = (Inr y, g')
           \<and> kshape y = [4, 4, 7] \<and> channels y = 7)"
  using dense_block_channels[of "input_tensor [4, 4, 3]" 4 4 3 2 3 1 2 "input_graph [4, 4, 3]"]
  by (simp add: input_tensor_def)

section \<open>Squeeze and excite\<close>

text \<open>
  C4, as stated: squeeze-excite fails when the ratio does not divide the channel count.
  This fails: on 24 channels with ratio 16 the block is built, with a reduce layer of
  \<open>24 // 16 = 1\<close> unit.
\<close>

theorem SqueezeExcite_counterexample:
  "(24 :: nat) mod 16 \<noteq> 0
   \<and> SqueezeExcite (input_tensor [4, 4, 24]) 16 (input_graph [4, 4, 24]) =
       (Inr \<lparr>kshape = [4, 4, 24], klayer = Multiply, knode = 4\<rparr>,
        [\<lparr>node_layer = InputLayer [4, 4, 24], inbound = []\<rparr>,
         \<lparr>node_layer = GlobalAveragePooling2D, inbound = [0]\<rparr>,
         \<lparr>node_layer = Dense 1 (Some ''relu'') None, inbound = [1]\<rparr>,
         \<lparr>node_layer = Dense 24 (Some ''sigmoid'') None, inbound = [2]\<rparr>,
         \<lparr>node_layer = Multiply, inbound = [0, 3]\<rparr>])"
  by code_simp

text \<open>
  C4, amended: squeeze-excite does not check divisibility. On an input of shape
  \<open>(h, w, C)\<close> and with a ratio of at least 1 it succeeds: it creates the pooling layer, a
  reduce layer of \<open>C // ratio\<close> units (the floor of the quotient, which is the exact
  quotient when the ratio divides \<open>C\<close>), a restore layer of \<open>C\<close> units and the
  multiplication, and its output has the shape of its input. With the ratio 0 it raises
  \<^verbatim>\<open>ZeroDivisionError\<close> after the pooling layer.
\<close>

theorem SqueezeExcite_reduce_units:
  assumes "kshape x = [h, w, c]"
  shows "(0 < ratio \<longrightarrow>
           SqueezeExcite x ratio g =
             (Inr \<lparr>kshape = [h, w, c], klayer = Multiply, knode = length g + 3\<rparr>,
              g @ [\<lparr>node_layer = GlobalAveragePooling2D, inbound = [knode x]\<rparr>,
                   \<lparr>node_layer = Dense (c div ratio) (Some ''relu'') None, inbound = [length g]\<rparr>,
                   \<lparr>node_layer = Dense c (Some ''sigmoid'') None, inbound = [length g + 1]\<rparr>,
                   \<lparr>node_layer = Multiply, inbound = [knode x, length g + 2]\<rparr>])
           \<and> (ratio dvd c \<longrightarrow> (c div ratio) * ratio = c))
       \<and> SqueezeExcite x 0 g =
             (Inl ZeroDivisionError,
              g @ [\<lparr>node_layer = GlobalAveragePooling2D, inbound = [knode x]\<rparr>])"
  using assms
  by (simp add: SqueezeExcite_def Let_def bnd_def call_layer_def throw_def
      broadcast_shape_gate)

theorem SqueezeExcite_reduce_units_witness:
  "kshape (input_tensor [4, 4, 32]) = [4, 4, 32] \<and> (0 :: nat) < 16 \<and> (16 :: nat) dvd 32
   \<and> SqueezeExcite (input_tensor [4, 4, 32]) 16 [] =
       (Inr \<lparr>kshape = [4, 4, 32], klayer = Multiply, knode = 3\<rparr>,
        [\<lparr>node_layer = GlobalAveragePooling2D, inbound = [0]\<rparr>,
         \<lparr>node_layer = Dense 2 (Some ''relu'') None, inbound = [0]\<rparr>,
         \<lparr>node_layer = Dense 32 (Some ''sigmoid'') None, inbound = [1]\<rparr>,
         \<lparr>node_layer = Multiply, inbound = [0, 2]\<rparr>])
   \<and> (32 :: nat) div 16 * 16 = 32"
  using SqueezeExcite_reduce_units[of "input_tensor [4, 4, 32]" 4 4 32 16 "[]"]
  by (simp add: input_tensor_def)

section \<open>The recurrent merge\<close>





section \<open>The output stage and the whole build\<close>






section \<open>Resolution of the outputs\<close>






section \<open>The round trip of the spatial dimensions\<close>



end
